theory Spec2Isabelle
  imports Main
begin

section \<open>JavaScript values\<close>

text \<open>
  The value graph that \<^verbatim>\<open>FirestoreDataConverter\<close> walks. A number or bigint is carried
  as an integer payload: the converter never computes with one, except that an array's
  \<^verbatim>\<open>length\<close> is a number. A function is its \<^verbatim>\<open>name\<close> and its source text
  (\<^verbatim>\<open>toString()\<close>). A Date is its time value. An array is a list of slots, \<open>None\<close>
  being a hole. An object is
  the list of constructor names along its prototype chain, nearest first (a plain object
  has \<open>[''Object'']\<close>, \<^verbatim>\<open>new Point()\<close> has \<open>[''Point'', ''Object'']\<close>,
  \<^verbatim>\<open>Object.create(null)\<close> has \<open>[]\<close>), and its own string-keyed data properties in
  the order \<^verbatim>\<open>Object.getOwnPropertyNames\<close> lists them, each with its enumerable flag.
  Classes are identified by their names. Values are finite trees, so a cyclic graph (on
  which the source overflows the stack) is not a value of the model.
\<close>

datatype jsval =
    JUndefined
  | JNull
  | JNumber int
  | JBoolean bool
  | JString string
  | JBigInt int
  | JSymbol string
  | JFunction string string
  | JDate int
  | JArray "jsval option list"
  | JObject "string list" "(string \<times> bool \<times> jsval) list"

type_synonym ownprop = "string \<times> bool \<times> jsval"

text \<open>
  What the source throws, and \<open>Unmodelled\<close>: the model's answer where the source's
  behaviour depends on a part of the host language that the value type above does not
  represent. A result other than \<open>Inl Unmodelled\<close> is the source's result.
\<close>

datatype error = Error string | TypeError | RangeError | Unmodelled

type_synonym 'a result = "error + 'a"

type_synonym converter = "jsval \<Rightarrow> jsval result"

fun typeof :: "jsval \<Rightarrow> string" where
  "typeof JUndefined = ''undefined''"
| "typeof JNull = ''object''"
| "typeof (JNumber n) = ''number''"
| "typeof (JBoolean b) = ''boolean''"
| "typeof (JString s) = ''string''"
| "typeof (JBigInt n) = ''bigint''"
| "typeof (JSymbol d) = ''symbol''"
| "typeof (JFunction name src) = ''function''"
| "typeof (JDate t) = ''object''"
| "typeof (JArray items) = ''object''"
| "typeof (JObject chain props) = ''object''"

definition hasOwn :: "string \<Rightarrow> ownprop list \<Rightarrow> bool" where
  "hasOwn k props = (k \<in> set (map fst props))"

text \<open>
  \<^verbatim>\<open>value?.constructor?.name\<close>. An object with an own property called
  \<^verbatim>\<open>constructor\<close> shadows the one of its prototype: not modelled.
\<close>

fun constructorName :: "jsval \<Rightarrow> string option result" where
  "constructorName JUndefined = Inr None"
| "constructorName JNull = Inr None"
| "constructorName (JNumber n) = Inr (Some ''Number'')"
| "constructorName (JBoolean b) = Inr (Some ''Boolean'')"
| "constructorName (JString s) = Inr (Some ''String'')"
| "constructorName (JBigInt n) = Inr (Some ''BigInt'')"
| "constructorName (JSymbol d) = Inr (Some ''Symbol'')"
| "constructorName (JFunction name src) = Inr (Some ''Function'')"
| "constructorName (JDate t) = Inr (Some ''Date'')"
| "constructorName (JArray items) = Inr (Some ''Array'')"
| "constructorName (JObject chain props) =
     (if hasOwn ''constructor'' props then Inl Unmodelled
      else case chain of [] \<Rightarrow> Inr None | c # _ \<Rightarrow> Inr (Some c))"

text \<open>\<^verbatim>\<open>x instanceof C\<close> for a class \<open>C\<close>: its name is on the prototype chain.\<close>

fun instanceOf :: "jsval \<Rightarrow> string \<Rightarrow> bool" where
  "instanceOf (JObject chain props) c = (c \<in> set chain)"
| "instanceOf (JDate t) c = (c = ''Date'' \<or> c = ''Object'')"
| "instanceOf (JArray items) c = (c = ''Array'' \<or> c = ''Object'')"
| "instanceOf (JFunction name src) c = (c = ''Function'' \<or> c = ''Object'')"
| "instanceOf v c = False"

subsection \<open>Property keys and their order\<close>

definition isDigit :: "char \<Rightarrow> bool" where
  "isDigit c = ((48::nat) \<le> of_char c \<and> (of_char c :: nat) \<le> 57)"

definition digitChar :: "nat \<Rightarrow> char" where
  "digitChar d = ''0123456789'' ! d"

fun showNat :: "nat \<Rightarrow> string" where
  "showNat n = (if n < 10 then [digitChar n] else showNat (n div 10) @ [digitChar (n mod 10)])"

declare showNat.simps [simp del]

definition readNat :: "string \<Rightarrow> nat" where
  "readNat s = foldl (\<lambda>a c. 10 * a + ((of_char c :: nat) - 48)) 0 s"

text \<open>
  An array index is the canonical decimal string of a number below \<open>2^32 - 1\<close>. Such keys
  come first among an object's own keys, in ascending order; the other keys follow in the
  order they were created.
\<close>

definition arrayIndex :: "string \<Rightarrow> nat option" where
  "arrayIndex s =
     (if s \<noteq> [] \<and> list_all isDigit s \<and> (length s = 1 \<or> hd s \<noteq> CHR ''0'')
         \<and> readNat s < 2 ^ 32 - 1
      then Some (readNat s) else None)"

definition keyBefore :: "string \<Rightarrow> string \<Rightarrow> bool" where
  "keyBefore k k' =
     (case arrayIndex k of
        None \<Rightarrow> False
      | Some i \<Rightarrow> (case arrayIndex k' of None \<Rightarrow> True | Some j \<Rightarrow> i < j))"

text \<open>
  \<^verbatim>\<open>obj[k] = v\<close> on an object with own data properties only: an existing property keeps
  its place and its attributes, a new one is enumerable and takes its place in the key
  order.
\<close>

fun put :: "string \<Rightarrow> jsval \<Rightarrow> ownprop list \<Rightarrow> ownprop list" where
  "put k v [] = [(k, True, v)]"
| "put k v ((k', en, v') # ps) =
     (if k = k' then (k', en, v) # ps
      else if keyBefore k k' then (k, True, v) # (k', en, v') # ps
      else (k', en, v') # put k v ps)"

text \<open>\<^verbatim>\<open>Object.fromEntries\<close>: every entry is defined on a fresh object in turn.\<close>

definition fromEntries :: "(string \<times> jsval) list \<Rightarrow> ownprop list" where
  "fromEntries es = foldl (\<lambda>acc (k, v). put k v acc) [] es"

text \<open>
  \<^verbatim>\<open>result[key] = v\<close> on a plain object \<^verbatim>\<open>result\<close>. The key \<^verbatim>\<open>__proto__\<close> reaches the
  setter of \<^verbatim>\<open>Object.prototype\<close>: it ignores a primitive other than null, and replaces
  the prototype otherwise, which is not modelled.
\<close>

fun isPrimitive :: "jsval \<Rightarrow> bool" where
  "isPrimitive (JFunction name src) = False"
| "isPrimitive (JDate t) = False"
| "isPrimitive (JArray items) = False"
| "isPrimitive (JObject chain props) = False"
| "isPrimitive v = True"

definition assign :: "string \<Rightarrow> jsval \<Rightarrow> ownprop list \<Rightarrow> ownprop list result" where
  "assign k v ps =
     (if k = ''__proto__''
      then (if isPrimitive v \<and> v \<noteq> JNull then Inr ps else Inl Unmodelled)
      else Inr (put k v ps))"

section \<open>The converter's options\<close>

text \<open>
  The options object as the constructor receives it (a field left out is \<open>None\<close>) and as
  the converter holds it afterwards. The policy modes are strings, as in the source, so a
  mode that no \<^verbatim>\<open>switch\<close> recognises is a value of the model. A converter table is the
  map of its own keys.
\<close>

record raw_options =
  rawToFirestoreConverters :: "(string \<rightharpoonup> converter) option"
  rawFromFirestoreConverters :: "(string \<rightharpoonup> converter) option"
  rawUndefinedValues :: "string option"
  rawMultidimensionalArrays :: "string option"
  rawFunctions :: "string option"
  rawClassInstances :: "string option"
  rawFallback :: "string option"
  rawConstructorKey :: "string option"

record options =
  toFirestoreConverters :: "string \<rightharpoonup> converter"
  fromFirestoreConverters :: "string \<rightharpoonup> converter"
  undefinedValues :: string
  multidimensionalArrays :: string
  functions_mode :: string
  classInstances :: string
  fallback :: string
  constructorKey :: string

definition orDefault :: "'a option \<Rightarrow> 'a \<Rightarrow> 'a" where
  "orDefault x d = (case x of None \<Rightarrow> d | Some y \<Rightarrow> y)"

definition FirestoreDataConverter :: "raw_options \<Rightarrow> options" where
  "FirestoreDataConverter raw =
     \<lparr> toFirestoreConverters = orDefault (rawToFirestoreConverters raw) Map.empty,
       fromFirestoreConverters = orDefault (rawFromFirestoreConverters raw) Map.empty,
       undefinedValues = orDefault (rawUndefinedValues raw) ''omit'',
       multidimensionalArrays = orDefault (rawMultidimensionalArrays raw) ''convert'',
       functions_mode = orDefault (rawFunctions raw) ''omit'',
       classInstances = orDefault (rawClassInstances raw) ''convert'',
       fallback = orDefault (rawFallback raw) ''return'',
       constructorKey = orDefault (rawConstructorKey raw) ''_constructor'' \<rparr>"

definition noOptions :: raw_options where
  "noOptions =
     \<lparr> rawToFirestoreConverters = None, rawFromFirestoreConverters = None,
       rawUndefinedValues = None, rawMultidimensionalArrays = None, rawFunctions = None,
       rawClassInstances = None, rawFallback = None, rawConstructorKey = None \<rparr>"

text \<open>\<^verbatim>\<open>new FirestoreDataConverter()\<close>: every default.\<close>

definition defaultConverter :: options where
  "defaultConverter = FirestoreDataConverter noOptions"

section \<open>Custom converters\<close>

text \<open>
  \<^verbatim>\<open>customValue instanceof ContinueConversion\<close>.
\<close>

definition isContinueConversion :: "jsval \<Rightarrow> bool" where
  "isContinueConversion r = instanceOf r ''ContinueConversion''"

text \<open>
  One lookup of the custom stage: \<open>Inr (Some r)\<close> when the converter registered under
  \<open>k\<close> returns \<open>r\<close>, which is not a \<^verbatim>\<open>ContinueConversion\<close>; \<open>Inr None\<close> when there is no
  such converter or it continues; \<open>Inl e\<close> when it throws.
\<close>

definition customLookup :: "(string \<rightharpoonup> converter) \<Rightarrow> string \<Rightarrow> jsval \<Rightarrow> jsval option result" where
  "customLookup table k v =
     (case table k of
        None \<Rightarrow> Inr None
      | Some f \<Rightarrow>
          (case f v of
             Inl e \<Rightarrow> Inl e
           | Inr r \<Rightarrow> if isContinueConversion r then Inr None else Inr (Some r)))"

text \<open>
  The names that \<^verbatim>\<open>in\<close> finds on every table through \<^verbatim>\<open>Object.prototype\<close>. No
  \<^verbatim>\<open>typeof\<close> tag is among them; a constructor name can be, and then the source calls the
  inherited member as a converter, which is not modelled.
\<close>

definition objectPrototypeNames :: "string list" where
  "objectPrototypeNames =
     [''constructor'', ''__defineGetter__'', ''__defineSetter__'', ''hasOwnProperty'',
      ''__lookupGetter__'', ''__lookupSetter__'', ''isPrototypeOf'',
      ''propertyIsEnumerable'', ''toString'', ''valueOf'', ''__proto__'',
      ''toLocaleString'']"

text \<open>
  The first lines of both conversions: the converter under \<^verbatim>\<open>typeof value\<close>, then the
  one under the constructor's name when that name is not empty.
\<close>

definition customStage :: "(string \<rightharpoonup> converter) \<Rightarrow> jsval \<Rightarrow> jsval option result" where
  "customStage table v =
     (case customLookup table (typeof v) v of
        Inl e \<Rightarrow> Inl e
      | Inr (Some r) \<Rightarrow> Inr (Some r)
      | Inr None \<Rightarrow>
          (case constructorName v of
             Inl e \<Rightarrow> Inl e
           | Inr None \<Rightarrow> Inr None
           | Inr (Some c) \<Rightarrow>
               if c = [] then Inr None
               else if table c = None \<and> c \<in> set objectPrototypeNames then Inl Unmodelled
               else customLookup table c v))"

section \<open>Outbound conversion\<close>

definition isFirestoreType :: "string \<Rightarrow> bool" where
  "isFirestoreType c =
     (c = ''DocumentReference'' \<or> c = ''GeoPoint'' \<or> c = ''Timestamp'' \<or> c = ''FieldValue'')"

text \<open>\<^verbatim>\<open>plainObject[constructorKey] = name\<close>: the setter of \<^verbatim>\<open>__proto__\<close> ignores a string.\<close>

definition setTag :: "string \<Rightarrow> string \<Rightarrow> ownprop list \<Rightarrow> ownprop list" where
  "setTag key name ps = (if key = ''__proto__'' then ps else put key (JString name) ps)"

text \<open>
  \<^verbatim>\<open>convertValueToFirestore\<close> is the custom stage followed by the built-in cases,
  \<open>defaultToFirestore\<close>, in the source's order. \<open>mapToFirestore\<close> is
  \<^verbatim>\<open>value.map(item => this.convertValueToFirestore(item, true))\<close>, which keeps holes;
  \<open>fieldsToFirestore\<close> is the loop over \<^verbatim>\<open>Object.entries(value)\<close> that fills
  \<^verbatim>\<open>result\<close>; \<open>typedProps\<close> and \<open>typedItems\<close> are the \<^verbatim>\<open>map\<close> of
  \<^verbatim>\<open>convertToTypedPlainObject\<close> over the own property names of an object and of an
  array (its present indices, then \<^verbatim>\<open>length\<close>). The first error ends the call.
\<close>

function
  convertValueToFirestore :: "options \<Rightarrow> jsval \<Rightarrow> bool \<Rightarrow> jsval result" and
  defaultToFirestore :: "options \<Rightarrow> jsval \<Rightarrow> bool \<Rightarrow> jsval result" and
  mapToFirestore :: "options \<Rightarrow> jsval option list \<Rightarrow> jsval option list result" and
  fieldsToFirestore :: "options \<Rightarrow> ownprop list \<Rightarrow> ownprop list \<Rightarrow> ownprop list result" and
  convertToTypedPlainObject :: "options \<Rightarrow> jsval \<Rightarrow> bool \<Rightarrow> jsval result" and
  typedProps :: "options \<Rightarrow> bool \<Rightarrow> ownprop list \<Rightarrow> (string \<times> jsval) list result" and
  typedItems :: "options \<Rightarrow> bool \<Rightarrow> nat \<Rightarrow> jsval option list \<Rightarrow> (string \<times> jsval) list result"
where
  "convertValueToFirestore opts v insideArray =
     (case customStage (toFirestoreConverters opts) v of
        Inl e \<Rightarrow> Inl e
      | Inr (Some r) \<Rightarrow> Inr r
      | Inr None \<Rightarrow> defaultToFirestore opts v insideArray)"
| "defaultToFirestore opts JNull insideArray = Inr JNull"
| "defaultToFirestore opts JUndefined insideArray =
     (if undefinedValues opts = ''omit'' then Inr JUndefined
      else if undefinedValues opts = ''null'' then Inr JNull
      else Inl (Error (''Invalid value for undefinedValues: '' @ undefinedValues opts)))"
| "defaultToFirestore opts (JNumber n) insideArray = Inr (JNumber n)"
| "defaultToFirestore opts (JBoolean b) insideArray = Inr (JBoolean b)"
| "defaultToFirestore opts (JString s) insideArray = Inr (JString s)"
| "defaultToFirestore opts (JBigInt n) insideArray = Inr (JBigInt n)"
| "defaultToFirestore opts (JSymbol d) insideArray = Inr (JString (''Symbol('' @ d @ '')''))"
| "defaultToFirestore opts (JDate t) insideArray = Inr (JDate t)"
| "defaultToFirestore opts (JFunction name src) insideArray =
     (if functions_mode opts = ''convert'' then
        Inr (JObject [''Object'']
          (put ''string'' (JString src)
            (put ''name'' (JString name)
              (put (constructorKey opts) (JString ''Function'') []))))
      else if functions_mode opts = ''omit'' then Inr JUndefined
      else if functions_mode opts = ''error'' then Inl (Error ''Firestore can't handle functions'')
      else if fallback opts = ''return'' then Inr (JFunction name src)
      else if fallback opts = ''omit'' then Inr JUndefined
      else if fallback opts = ''error'' then
        Inl (Error (''Can't convert value to Firestore: '' @ src))
      else Inl (Error (''Invalid value for fallback: '' @ fallback opts)))"
| "defaultToFirestore opts (JArray items) insideArray =
     (if insideArray then
        (if multidimensionalArrays opts = ''convert'' then
           convertToTypedPlainObject opts (JArray items) True
         else if multidimensionalArrays opts = ''omit'' then Inr JUndefined
         else if multidimensionalArrays opts = ''error'' then
           Inl (Error ''Firestore can't handle multi-dimensional arrays'')
         else Inl (Error (''Invalid value for multidimensionalArrays: ''
                          @ multidimensionalArrays opts)))
      else
        (case mapToFirestore opts items of
           Inl e \<Rightarrow> Inl e
         | Inr items' \<Rightarrow> Inr (JArray items')))"
| "defaultToFirestore opts (JObject chain props) insideArray =
     (case chain of
        [] \<Rightarrow> convertToTypedPlainObject opts (JObject chain props) True
      | c # _ \<Rightarrow>
          if isFirestoreType c then Inr (JObject chain props)
          else if ''Date'' \<in> set chain then Inr (JObject chain props)
          else if c = ''Object'' then
            (case fieldsToFirestore opts props [] of
               Inl e \<Rightarrow> Inl e
             | Inr result \<Rightarrow> Inr (JObject [''Object''] result))
          else convertToTypedPlainObject opts (JObject chain props) True)"
| "mapToFirestore opts [] = Inr []"
| "mapToFirestore opts (None # items) =
     (case mapToFirestore opts items of
        Inl e \<Rightarrow> Inl e
      | Inr items' \<Rightarrow> Inr (None # items'))"
| "mapToFirestore opts (Some item # items) =
     (case convertValueToFirestore opts item True of
        Inl e \<Rightarrow> Inl e
      | Inr item' \<Rightarrow>
          (case mapToFirestore opts items of
             Inl e \<Rightarrow> Inl e
           | Inr items' \<Rightarrow> Inr (Some item' # items')))"
| "fieldsToFirestore opts [] result = Inr result"
| "fieldsToFirestore opts ((key, enumerable, val) # props) result =
     (if enumerable then
        (case convertValueToFirestore opts val False of
           Inl e \<Rightarrow> Inl e
         | Inr val' \<Rightarrow>
             (case assign key val' result of
                Inl e \<Rightarrow> Inl e
              | Inr result' \<Rightarrow> fieldsToFirestore opts props result'))
      else fieldsToFirestore opts props result)"
| "convertToTypedPlainObject opts v convertValues =
     (case v of
        JArray items \<Rightarrow>
          (case typedItems opts convertValues 0 items of
             Inl e \<Rightarrow> Inl e
           | Inr es \<Rightarrow>
               (case (if convertValues
                      then convertValueToFirestore opts (JNumber (int (length items))) False
                      else Inr (JNumber (int (length items)))) of
                  Inl e \<Rightarrow> Inl e
                | Inr len \<Rightarrow>
                    Inr (JObject [''Object'']
                      (setTag (constructorKey opts) ''Array''
                        (fromEntries (es @ [(''length'', len)]))))))
      | JObject chain props \<Rightarrow>
          (case typedProps opts convertValues props of
             Inl e \<Rightarrow> Inl e
           | Inr es \<Rightarrow>
               if hasOwn ''constructor'' props then Inl Unmodelled
               else
                 (case chain of
                    [] \<Rightarrow> Inl TypeError
                  | c # _ \<Rightarrow>
                      Inr (JObject [''Object''] (setTag (constructorKey opts) c (fromEntries es)))))
      | _ \<Rightarrow> Inl Unmodelled)"
| "typedProps opts convertValues [] = Inr []"
| "typedProps opts convertValues ((key, enumerable, val) # props) =
     (case (if convertValues then convertValueToFirestore opts val False else Inr val) of
        Inl e \<Rightarrow> Inl e
      | Inr val' \<Rightarrow>
          (case typedProps opts convertValues props of
             Inl e \<Rightarrow> Inl e
           | Inr es \<Rightarrow> Inr ((key, val') # es)))"
| "typedItems opts convertValues i [] = Inr []"
| "typedItems opts convertValues i (None # items) = typedItems opts convertValues (Suc i) items"
| "typedItems opts convertValues i (Some item # items) =
     (case (if convertValues then convertValueToFirestore opts item False else Inr item) of
        Inl e \<Rightarrow> Inl e
      | Inr item' \<Rightarrow>
          (case typedItems opts convertValues (Suc i) items of
             Inl e \<Rightarrow> Inl e
           | Inr es \<Rightarrow> Inr ((showNat i, item') # es)))"
  by pat_completeness auto

termination
  by (relation "measure (\<lambda>x. case x of
      Inl (Inl (opts, v, ia)) \<Rightarrow> 3 * size v + 2
    | Inl (Inr (Inl (opts, v, ia))) \<Rightarrow> 3 * size v + 1
    | Inl (Inr (Inr (opts, items))) \<Rightarrow> 3 * size_list (size_option size) items + 2
    | Inr (Inl (Inl (opts, props, acc))) \<Rightarrow>
        3 * size_list (size_prod (\<lambda>x. 0) (size_prod (\<lambda>x. 0) size)) props + 2
    | Inr (Inl (Inr (opts, v, cv))) \<Rightarrow> 3 * size v
    | Inr (Inr (Inl (opts, cv, props))) \<Rightarrow>
        3 * size_list (size_prod (\<lambda>x. 0) (size_prod (\<lambda>x. 0) size)) props + 2
    | Inr (Inr (Inr (opts, cv, i, items))) \<Rightarrow> 3 * size_list (size_option size) items + 2)")
    auto

definition toFirestore :: "options \<Rightarrow> jsval \<Rightarrow> jsval result" where
  "toFirestore opts modelObject = convertValueToFirestore opts modelObject False"

section \<open>Inbound conversion\<close>

text \<open>
  What inbound conversion calls outside the repository: \<^verbatim>\<open>toDate()\<close> of the store's
  \<^verbatim>\<open>Timestamp\<close>, and \<^verbatim>\<open>new Function(text)()\<close>, which compiles and runs \<open>text\<close>.
\<close>

record host =
  toDate :: converter
  runFunction :: "string \<Rightarrow> jsval result"

definition ownValue :: "string \<Rightarrow> ownprop list \<Rightarrow> jsval option" where
  "ownValue k props = map_of (map (\<lambda>(k', en, v). (k', v)) props) k"

text \<open>
  \<^verbatim>\<open>value?.[constructorKey] === tag\<close> for the tags \<^verbatim>\<open>"Array"\<close> and \<^verbatim>\<open>"Function"\<close>. What an
  object inherits are methods and accessors, never one of these strings; a function's
  \<^verbatim>\<open>name\<close> is a string; every property of a primitive or of a Date is a number, a
  single character or a method. An array is never asked.
\<close>

fun hasTag :: "jsval \<Rightarrow> string \<Rightarrow> string \<Rightarrow> bool" where
  "hasTag (JObject chain props) key tag = (ownValue key props = Some (JString tag))"
| "hasTag (JFunction name src) key tag = (key = ''name'' \<and> name = tag)"
| "hasTag v key tag = False"

text \<open>
  \<^verbatim>\<open>result[key] = v\<close> on the array \<^verbatim>\<open>result\<close>: an array index sets that slot (the array
  grows by holes), \<^verbatim>\<open>length\<close> resizes it or throws a RangeError, and any other key
  becomes a named property of the array, which is not modelled.
\<close>

definition setIndex :: "nat \<Rightarrow> jsval \<Rightarrow> jsval option list \<Rightarrow> jsval option list" where
  "setIndex i v items =
     (if i < length items then items[i := Some v]
      else items @ replicate (i - length items) None @ [Some v])"

definition resize :: "nat \<Rightarrow> jsval option list \<Rightarrow> jsval option list" where
  "resize n items = take n items @ replicate (n - length items) None"

fun setLength :: "jsval \<Rightarrow> jsval option list \<Rightarrow> jsval option list result" where
  "setLength (JNumber n) items =
     (if 0 \<le> n \<and> n < 2 ^ 32 then Inr (resize (nat n) items) else Inl RangeError)"
| "setLength JUndefined items = Inl RangeError"
| "setLength JNull items = Inr []"
| "setLength (JBoolean b) items = Inr (resize (if b then 1 else 0) items)"
| "setLength (JBigInt n) items = Inl TypeError"
| "setLength (JSymbol d) items = Inl TypeError"
| "setLength v items = Inl Unmodelled"

definition arrayAssign :: "string \<Rightarrow> jsval \<Rightarrow> jsval option list \<Rightarrow> jsval option list result" where
  "arrayAssign key v items =
     (case arrayIndex key of
        Some i \<Rightarrow> Inr (setIndex i v items)
      | None \<Rightarrow> if key = ''length'' then setLength v items else Inl Unmodelled)"

text \<open>The text that the template \<^verbatim>\<open>`return ${value.string}`\<close> splices in.\<close>

fun templateText :: "jsval option \<Rightarrow> string result" where
  "templateText None = Inr ''undefined''"
| "templateText (Some JUndefined) = Inr ''undefined''"
| "templateText (Some JNull) = Inr ''null''"
| "templateText (Some (JBoolean b)) = Inr (if b then ''true'' else ''false'')"
| "templateText (Some (JString s)) = Inr s"
| "templateText (Some v) = Inl Unmodelled"

fun stringProperty :: "jsval \<Rightarrow> jsval option" where
  "stringProperty (JObject chain props) = ownValue ''string'' props"
| "stringProperty v = None"

text \<open>
  \<^verbatim>\<open>convertValueFromFirestore\<close> is the custom stage followed by the built-in cases,
  \<open>defaultFromFirestore\<close>, in the source's order for each kind of value: a
  \<^verbatim>\<open>Timestamp\<close> by its constructor's name, an array, a value tagged \<^verbatim>\<open>"Array"\<close>, a
  value tagged \<^verbatim>\<open>"Function"\<close>, anything whose \<^verbatim>\<open>typeof\<close> is \<^verbatim>\<open>"object"\<close> (null, on
  which \<^verbatim>\<open>Object.entries\<close> throws, included), and the rest unchanged.
  \<open>mapFromFirestore\<close> is the \<^verbatim>\<open>map\<close> over an array,
  \<open>itemsFromFirestore\<close> the loop that rebuilds a converted array into \<^verbatim>\<open>result = []\<close>,
  \<open>fieldsFromFirestore\<close> the loop that fills \<^verbatim>\<open>result = {}\<close>.
\<close>

function
  convertValueFromFirestore :: "host \<Rightarrow> options \<Rightarrow> jsval \<Rightarrow> jsval result" and
  defaultFromFirestore :: "host \<Rightarrow> options \<Rightarrow> jsval \<Rightarrow> jsval result" and
  mapFromFirestore :: "host \<Rightarrow> options \<Rightarrow> jsval option list \<Rightarrow> jsval option list result" and
  itemsFromFirestore ::
    "host \<Rightarrow> options \<Rightarrow> ownprop list \<Rightarrow> jsval option list \<Rightarrow> jsval option list result" and
  fieldsFromFirestore ::
    "host \<Rightarrow> options \<Rightarrow> ownprop list \<Rightarrow> ownprop list \<Rightarrow> ownprop list result"
where
  "convertValueFromFirestore h opts v =
     (case customStage (fromFirestoreConverters opts) v of
        Inl e \<Rightarrow> Inl e
      | Inr (Some r) \<Rightarrow> Inr r
      | Inr None \<Rightarrow> defaultFromFirestore h opts v)"
| "defaultFromFirestore h opts JUndefined = Inr JUndefined"
| "defaultFromFirestore h opts JNull = Inl TypeError"
| "defaultFromFirestore h opts (JNumber n) = Inr (JNumber n)"
| "defaultFromFirestore h opts (JBoolean b) = Inr (JBoolean b)"
| "defaultFromFirestore h opts (JString s) = Inr (JString s)"
| "defaultFromFirestore h opts (JBigInt n) = Inr (JBigInt n)"
| "defaultFromFirestore h opts (JSymbol d) = Inr (JSymbol d)"
| "defaultFromFirestore h opts (JDate t) = Inr (JObject [''Object''] [])"
| "defaultFromFirestore h opts (JFunction name src) =
     (if multidimensionalArrays opts = ''convert''
         \<and> hasTag (JFunction name src) (constructorKey opts) ''Array'' then
        Inr (JArray [])
      else if functions_mode opts = ''convert''
         \<and> hasTag (JFunction name src) (constructorKey opts) ''Function'' then
        (case templateText (stringProperty (JFunction name src)) of
           Inl e \<Rightarrow> Inl e
         | Inr text \<Rightarrow> runFunction h (''return '' @ text))
      else Inr (JFunction name src))"
| "defaultFromFirestore h opts (JArray items) =
     (case mapFromFirestore h opts items of
        Inl e \<Rightarrow> Inl e
      | Inr items' \<Rightarrow> Inr (JArray items'))"
| "defaultFromFirestore h opts (JObject chain props) =
     (case constructorName (JObject chain props) of
        Inl e \<Rightarrow> Inl e
      | Inr name \<Rightarrow>
          if name = Some ''Timestamp'' then toDate h (JObject chain props)
          else if multidimensionalArrays opts = ''convert''
             \<and> hasTag (JObject chain props) (constructorKey opts) ''Array'' then
            (case itemsFromFirestore h opts props [] of
               Inl e \<Rightarrow> Inl e
             | Inr result \<Rightarrow> Inr (JArray result))
          else if functions_mode opts = ''convert''
             \<and> hasTag (JObject chain props) (constructorKey opts) ''Function'' then
            (case templateText (stringProperty (JObject chain props)) of
               Inl e \<Rightarrow> Inl e
             | Inr text \<Rightarrow> runFunction h (''return '' @ text))
          else
            (case fieldsFromFirestore h opts props [] of
               Inl e \<Rightarrow> Inl e
             | Inr result \<Rightarrow> Inr (JObject [''Object''] result)))"
| "mapFromFirestore h opts [] = Inr []"
| "mapFromFirestore h opts (None # items) =
     (case mapFromFirestore h opts items of
        Inl e \<Rightarrow> Inl e
      | Inr items' \<Rightarrow> Inr (None # items'))"
| "mapFromFirestore h opts (Some item # items) =
     (case convertValueFromFirestore h opts item of
        Inl e \<Rightarrow> Inl e
      | Inr item' \<Rightarrow>
          (case mapFromFirestore h opts items of
             Inl e \<Rightarrow> Inl e
           | Inr items' \<Rightarrow> Inr (Some item' # items')))"
| "itemsFromFirestore h opts [] result = Inr result"
| "itemsFromFirestore h opts ((key, enumerable, val) # props) result =
     (if enumerable \<and> key \<noteq> constructorKey opts then
        (case convertValueFromFirestore h opts val of
           Inl e \<Rightarrow> Inl e
         | Inr val' \<Rightarrow>
             (case arrayAssign key val' result of
                Inl e \<Rightarrow> Inl e
              | Inr result' \<Rightarrow> itemsFromFirestore h opts props result'))
      else itemsFromFirestore h opts props result)"
| "fieldsFromFirestore h opts [] result = Inr result"
| "fieldsFromFirestore h opts ((key, enumerable, val) # props) result =
     (if enumerable then
        (case convertValueFromFirestore h opts val of
           Inl e \<Rightarrow> Inl e
         | Inr val' \<Rightarrow>
             (case assign key val' result of
                Inl e \<Rightarrow> Inl e
              | Inr result' \<Rightarrow> fieldsFromFirestore h opts props result'))
      else fieldsFromFirestore h opts props result)"
  by pat_completeness auto

termination
  by (relation "measure (\<lambda>x. case x of
      Inl (Inl (h, opts, v)) \<Rightarrow> 3 * size v + 2
    | Inl (Inr (h, opts, v)) \<Rightarrow> 3 * size v + 1
    | Inr (Inl (h, opts, items)) \<Rightarrow> 3 * size_list (size_option size) items
    | Inr (Inr (Inl (h, opts, props, acc))) \<Rightarrow>
        3 * size_list (size_prod (\<lambda>x. 0) (size_prod (\<lambda>x. 0) size)) props
    | Inr (Inr (Inr (h, opts, props, acc))) \<Rightarrow>
        3 * size_list (size_prod (\<lambda>x. 0) (size_prod (\<lambda>x. 0) size)) props)")
    auto

text \<open>\<^verbatim>\<open>fromFirestore(snapshot, options)\<close> converts what \<^verbatim>\<open>snapshot.data(options)\<close> returns.\<close>

definition fromFirestore :: "host \<Rightarrow> options \<Rightarrow> jsval \<Rightarrow> jsval result" where
  "fromFirestore h opts data = convertValueFromFirestore h opts data"

section \<open>The reflection helper\<close>

text \<open>
  \<^verbatim>\<open>isInstanceOf(object, type)\<close> of \<^verbatim>\<open>util.js\<close> walks the prototype chain from
  \<^verbatim>\<open>Object.getPrototypeOf(object)\<close> and compares each prototype's constructor name with
  \<open>type\<close>. A primitive is boxed first, so its chain is that of its wrapper.
\<close>

fun walk :: "string list \<Rightarrow> string \<Rightarrow> bool" where
  "walk [] type = False"
| "walk (c # protos) type = (if c = type then True else walk protos type)"

fun isInstanceOf :: "jsval \<Rightarrow> string \<Rightarrow> bool" where
  "isInstanceOf JUndefined type = False"
| "isInstanceOf JNull type = False"
| "isInstanceOf (JNumber n) type = walk [''Number'', ''Object''] type"
| "isInstanceOf (JBoolean b) type = walk [''Boolean'', ''Object''] type"
| "isInstanceOf (JString s) type = walk [''String'', ''Object''] type"
| "isInstanceOf (JBigInt n) type = walk [''BigInt'', ''Object''] type"
| "isInstanceOf (JSymbol d) type = walk [''Symbol'', ''Object''] type"
| "isInstanceOf (JFunction name src) type = walk [''Function'', ''Object''] type"
| "isInstanceOf (JDate t) type = walk [''Date'', ''Object''] type"
| "isInstanceOf (JArray items) type = walk [''Array'', ''Object''] type"
| "isInstanceOf (JObject chain props) type = walk chain type"

section \<open>Outcomes\<close>

text \<open>A call returns, or it throws an error of the source's.\<close>

definition returns :: "'a result \<Rightarrow> bool" where
  "returns r = (case r of Inl e \<Rightarrow> False | Inr y \<Rightarrow> True)"

definition throws :: "'a result \<Rightarrow> bool" where
  "throws r = (case r of Inl e \<Rightarrow> e \<noteq> Unmodelled | Inr y \<Rightarrow> False)"

section \<open>Values and predicates of the properties\<close>

text \<open>A host without a store: nothing is a \<^verbatim>\<open>Timestamp\<close>, and no text compiles.\<close>

definition bareHost :: host where
  "bareHost = \<lparr> toDate = (\<lambda>v. Inl TypeError), runFunction = (\<lambda>text. Inl (Error ''SyntaxError'')) \<rparr>"








text \<open>
  The value \<^verbatim>\<open>g\<close> of the repository's test: \<^verbatim>\<open>new ServerTimestampTransform()\<close>, of a
  class that extends \<^verbatim>\<open>FieldValue\<close> and has no fields.
\<close>

definition serverTimestamp :: jsval where
  "serverTimestamp = JObject [''ServerTimestampTransform'', ''FieldValue'', ''Object''] []"

text \<open>A converter whose \<^verbatim>\<open>functions\<close> option is a string that no case recognises.\<close>

definition bogusFunctions :: options where
  "bogusFunctions = FirestoreDataConverter (noOptions\<lparr> rawFunctions := Some ''bogus'' \<rparr>)"

text \<open>Every element of an array converts outbound, as an element, without throwing.\<close>

fun itemsConvert :: "options \<Rightarrow> jsval option list \<Rightarrow> bool" where
  "itemsConvert opts [] = True"
| "itemsConvert opts (None # items) = itemsConvert opts items"
| "itemsConvert opts (Some item # items) =
     (returns (convertValueToFirestore opts item True) \<and> itemsConvert opts items)"

text \<open>
  Every enumerable field of a plain object converts outbound without throwing, and none
  is called \<^verbatim>\<open>__proto__\<close>.
\<close>

fun fieldsConvert :: "options \<Rightarrow> ownprop list \<Rightarrow> bool" where
  "fieldsConvert opts [] = True"
| "fieldsConvert opts ((key, enumerable, val) # props) =
     ((if enumerable
       then key \<noteq> ''__proto__'' \<and> returns (convertValueToFirestore opts val False)
       else True)
      \<and> fieldsConvert opts props)"

text \<open>
  The order of an object's own keys: no key occurs twice, and no key sorts before one
  that the list has earlier.
\<close>

fun keysInOrder :: "string list \<Rightarrow> bool" where
  "keysInOrder [] = True"
| "keysInOrder (k # ks) = (list_all (\<lambda>k'. k' \<noteq> k \<and> \<not> keyBefore k' k) ks \<and> keysInOrder ks)"

text \<open>
  Plain data: numbers, booleans, strings and bigints; arrays of plain data that are not
  directly inside another array; and plain objects whose fields are enumerable, hold plain
  data and are not called \<^verbatim>\<open>constructor\<close> or \<^verbatim>\<open>__proto__\<close>. No object carries the tag
  \<^verbatim>\<open>"Array"\<close> under \<open>tagKey\<close>, and every object lists its keys in their own-key order,
  as every object of the source does.
\<close>

function
  plainData :: "string \<Rightarrow> bool \<Rightarrow> jsval \<Rightarrow> bool" and
  plainItems :: "string \<Rightarrow> jsval option list \<Rightarrow> bool" and
  plainFields :: "string \<Rightarrow> ownprop list \<Rightarrow> bool"
where
  "plainData tagKey insideArray (JNumber n) = True"
| "plainData tagKey insideArray (JBoolean b) = True"
| "plainData tagKey insideArray (JString s) = True"
| "plainData tagKey insideArray (JBigInt n) = True"
| "plainData tagKey insideArray (JArray items) = (\<not> insideArray \<and> plainItems tagKey items)"
| "plainData tagKey insideArray (JObject chain props) =
     (chain = [''Object''] \<and> keysInOrder (map fst props)
      \<and> ownValue tagKey props \<noteq> Some (JString ''Array'') \<and> plainFields tagKey props)"
| "plainData tagKey insideArray JUndefined = False"
| "plainData tagKey insideArray JNull = False"
| "plainData tagKey insideArray (JSymbol d) = False"
| "plainData tagKey insideArray (JFunction name src) = False"
| "plainData tagKey insideArray (JDate t) = False"
| "plainItems tagKey [] = True"
| "plainItems tagKey (None # items) = plainItems tagKey items"
| "plainItems tagKey (Some item # items) =
     (plainData tagKey True item \<and> plainItems tagKey items)"
| "plainFields tagKey [] = True"
| "plainFields tagKey ((key, enumerable, val) # props) =
     (enumerable \<and> key \<noteq> ''constructor'' \<and> key \<noteq> ''__proto__''
      \<and> plainData tagKey False val \<and> plainFields tagKey props)"
  by pat_completeness auto

termination
  by (relation "measure (\<lambda>x. case x of
      Inl (tagKey, insideArray, v) \<Rightarrow> size v
    | Inr (Inl (tagKey, items)) \<Rightarrow> size_list (size_option size) items
    | Inr (Inr (tagKey, props)) \<Rightarrow>
        size_list (size_prod (\<lambda>x. 0) (size_prod (\<lambda>x. 0) size)) props)")
    auto

text \<open>The object \<^verbatim>\<open>{_constructor: "Array"}\<close>.\<close>

definition taggedObject :: jsval where
  "taggedObject = JObject [''Object''] [(''_constructor'', True, JString ''Array'')]"

text \<open>
  A value contains, at some depth, an array directly inside an array. \<open>insideArray\<close>
  says whether the value itself is an element of an array.
\<close>

function (sequential)
  containsNested :: "bool \<Rightarrow> jsval \<Rightarrow> bool" and
  itemsContainNested :: "jsval option list \<Rightarrow> bool" and
  propsContainNested :: "ownprop list \<Rightarrow> bool"
where
  "containsNested insideArray (JArray items) = (insideArray \<or> itemsContainNested items)"
| "containsNested insideArray (JObject chain props) = propsContainNested props"
| "containsNested insideArray v = False"
| "itemsContainNested [] = False"
| "itemsContainNested (None # items) = itemsContainNested items"
| "itemsContainNested (Some item # items) =
     (containsNested True item \<or> itemsContainNested items)"
| "propsContainNested [] = False"
| "propsContainNested ((key, enumerable, val) # props) =
     (containsNested False val \<or> propsContainNested props)"
  by pat_completeness auto

termination
  by (relation "measure (\<lambda>x. case x of
      Inl (insideArray, v) \<Rightarrow> size v
    | Inr (Inl items) \<Rightarrow> size_list (size_option size) items
    | Inr (Inr props) \<Rightarrow>
        size_list (size_prod (\<lambda>x. 0) (size_prod (\<lambda>x. 0) size)) props)")
    auto

text \<open>
  The same, along the paths that outbound conversion walks: the elements of an array, the
  enumerable fields of a plain object, and every own property of a class instance. An
  object that the converter returns as it is (a store-native type by its constructor's
  name, a Date) is not entered.
\<close>

function (sequential)
  reachesNested :: "bool \<Rightarrow> jsval \<Rightarrow> bool" and
  itemsReachNested :: "jsval option list \<Rightarrow> bool" and
  fieldsReachNested :: "ownprop list \<Rightarrow> bool" and
  propsReachNested :: "ownprop list \<Rightarrow> bool"
where
  "reachesNested insideArray (JArray items) = (insideArray \<or> itemsReachNested items)"
| "reachesNested insideArray (JObject chain props) =
     (case chain of
        [] \<Rightarrow> propsReachNested props
      | c # _ \<Rightarrow>
          \<not> isFirestoreType c \<and> ''Date'' \<notin> set chain
          \<and> (if c = ''Object'' then fieldsReachNested props else propsReachNested props))"
| "reachesNested insideArray v = False"
| "itemsReachNested [] = False"
| "itemsReachNested (None # items) = itemsReachNested items"
| "itemsReachNested (Some item # items) = (reachesNested True item \<or> itemsReachNested items)"
| "fieldsReachNested [] = False"
| "fieldsReachNested ((key, enumerable, val) # props) =
     ((enumerable \<and> reachesNested False val) \<or> fieldsReachNested props)"
| "propsReachNested [] = False"
| "propsReachNested ((key, enumerable, val) # props) =
     (reachesNested False val \<or> propsReachNested props)"
  by pat_completeness auto

termination
  by (relation "measure (\<lambda>x. case x of
      Inl (Inl (insideArray, v)) \<Rightarrow> size v
    | Inl (Inr items) \<Rightarrow> size_list (size_option size) items
    | Inr (Inl props) \<Rightarrow>
        size_list (size_prod (\<lambda>x. 0) (size_prod (\<lambda>x. 0) size)) props
    | Inr (Inr props) \<Rightarrow>
        size_list (size_prod (\<lambda>x. 0) (size_prod (\<lambda>x. 0) size)) props)")
    auto

text \<open>
  The objects of a value are within the model: none has an own property called
  \<^verbatim>\<open>constructor\<close> or \<^verbatim>\<open>__proto__\<close>, and no constructor is named like a member of
  \<^verbatim>\<open>Object.prototype\<close>.
\<close>

function (sequential)
  modelled :: "jsval \<Rightarrow> bool" and
  modelledItems :: "jsval option list \<Rightarrow> bool" and
  modelledProps :: "ownprop list \<Rightarrow> bool"
where
  "modelled (JArray items) = modelledItems items"
| "modelled (JObject chain props) =
     ((case chain of [] \<Rightarrow> True | c # _ \<Rightarrow> c \<notin> set objectPrototypeNames)
      \<and> modelledProps props)"
| "modelled v = True"
| "modelledItems [] = True"
| "modelledItems (None # items) = modelledItems items"
| "modelledItems (Some item # items) = (modelled item \<and> modelledItems items)"
| "modelledProps [] = True"
| "modelledProps ((key, enumerable, val) # props) =
     (key \<noteq> ''constructor'' \<and> key \<noteq> ''__proto__'' \<and> modelled val \<and> modelledProps props)"
  by pat_completeness auto

termination
  by (relation "measure (\<lambda>x. case x of
      Inl v \<Rightarrow> size v
    | Inr (Inl items) \<Rightarrow> size_list (size_option size) items
    | Inr (Inr props) \<Rightarrow>
        size_list (size_prod (\<lambda>x. 0) (size_prod (\<lambda>x. 0) size)) props)")
    auto

text \<open>
  An object whose constructor is called \<^verbatim>\<open>GeoPoint\<close>, with a field that holds the array
  \<^verbatim>\<open>[[1, 2]]\<close>, and a converter that is to fail on nested arrays.
\<close>

definition geoPointWithNested :: jsval where
  "geoPointWithNested = JObject [''GeoPoint'', ''Object'']
     [(''path'', True, JArray [Some (JArray [Some (JNumber 1), Some (JNumber 2)])])]"

definition errorOnNested :: options where
  "errorOnNested = FirestoreDataConverter (noOptions\<lparr> rawMultidimensionalArrays := Some ''error'' \<rparr>)"

section \<open>Evaluating the converter\<close>

lemma defaultConverter_simps:
  "toFirestoreConverters defaultConverter = Map.empty"
  "fromFirestoreConverters defaultConverter = Map.empty"
  "undefinedValues defaultConverter = ''omit''"
  "multidimensionalArrays defaultConverter = ''convert''"
  "functions_mode defaultConverter = ''omit''"
  "classInstances defaultConverter = ''convert''"
  "fallback defaultConverter = ''return''"
  "constructorKey defaultConverter = ''_constructor''"
  by (simp_all add: defaultConverter_def FirestoreDataConverter_def noOptions_def orDefault_def)

lemma customStage_empty:
  "table = Map.empty \<Longrightarrow>
   customStage table v =
     (case constructorName v of
        Inl e \<Rightarrow> Inl e
      | Inr None \<Rightarrow> Inr None
      | Inr (Some c) \<Rightarrow>
          if c \<noteq> [] \<and> c \<in> set objectPrototypeNames then Inl Unmodelled else Inr None)"
  by (auto simp: customStage_def customLookup_def split: sum.splits option.splits)

lemmas key_simps =
  hasOwn_def objectPrototypeNames_def isFirestoreType_def fromEntries_def setTag_def
  ownValue_def keyBefore_def arrayIndex_def isDigit_def readNat_def assign_def

section \<open>Class instances\<close>

text \<open>
  C7. With default options the class instance \<^verbatim>\<open>new Point(1, 2)\<close>, whose own fields are
  \<^verbatim>\<open>x\<close> and \<^verbatim>\<open>y\<close>, converts outbound to the plain object
  \<^verbatim>\<open>{x: 1, y: 2, _constructor: "Point"}\<close>. Inbound conversion of that object returns the
  same plain mapping: it is not an instance of \<^verbatim>\<open>Point\<close>, and the tag key is one of its
  ordinary fields.
\<close>

theorem C7_class_instance_is_not_rebuilt:
  "toFirestore defaultConverter
     (JObject [''Point'', ''Object''] [(''x'', True, JNumber 1), (''y'', True, JNumber 2)])
   = Inr (JObject [''Object'']
       [(''x'', True, JNumber 1), (''y'', True, JNumber 2),
        (''_constructor'', True, JString ''Point'')])
   \<and> fromFirestore h defaultConverter
       (JObject [''Object'']
         [(''x'', True, JNumber 1), (''y'', True, JNumber 2),
          (''_constructor'', True, JString ''Point'')])
     = Inr (JObject [''Object'']
         [(''x'', True, JNumber 1), (''y'', True, JNumber 2),
          (''_constructor'', True, JString ''Point'')])
   \<and> \<not> instanceOf
         (JObject [''Object'']
           [(''x'', True, JNumber 1), (''y'', True, JNumber 2),
            (''_constructor'', True, JString ''Point'')]) ''Point''"
  by (simp add: toFirestore_def fromFirestore_def defaultConverter_simps customStage_empty
      key_simps)

section \<open>Nested arrays\<close>




section \<open>Primitive scalars\<close>




section \<open>Custom converters take precedence\<close>








text \<open>
  On a value that holds no other value, the built-in dispatch is the conversion under
  empty tables.
\<close>

lemma default_dispatch_on_leaves:
  assumes "typeof v \<noteq> ''object'' \<or> v = JNull"
  shows "defaultToFirestore opts v insideArray
    = convertValueToFirestore (opts\<lparr>toFirestoreConverters := Map.empty\<rparr>) v insideArray"
    and "defaultFromFirestore h opts v
    = convertValueFromFirestore h (opts\<lparr>fromFirestoreConverters := Map.empty\<rparr>) v"
  using assms by (cases v; simp add: customStage_empty objectPrototypeNames_def)+

section \<open>Store-native types\<close>

text \<open>
  C4 at an instance of a subclass of \<^verbatim>\<open>FieldValue\<close>. The prototype-chain walk of
  \<^verbatim>\<open>isInstanceOf\<close> finds \<^verbatim>\<open>FieldValue\<close>, but the converter compares the nearest
  constructor's name only, so the instance is not returned unchanged: it is encoded as a
  typed plain object.
\<close>

theorem C4_subclass_instance_is_encoded:
  "isInstanceOf serverTimestamp ''FieldValue''
   \<and> toFirestore defaultConverter serverTimestamp
     = Inr (JObject [''Object''] [(''_constructor'', True, JString ''ServerTimestampTransform'')])
   \<and> toFirestore defaultConverter serverTimestamp \<noteq> Inr serverTimestamp"
  by (simp add: serverTimestamp_def toFirestore_def defaultConverter_simps customStage_empty
      key_simps)

text \<open>
  An object whose nearest constructor is named \<^verbatim>\<open>DocumentReference\<close>, \<^verbatim>\<open>GeoPoint\<close>,
  \<^verbatim>\<open>Timestamp\<close> or \<^verbatim>\<open>FieldValue\<close> is returned unchanged, whatever it holds, when no
  custom converter is registered.
\<close>

lemma firestore_type_unchanged:
  assumes "toFirestoreConverters opts = Map.empty" and "isFirestoreType c"
    and "\<not> hasOwn ''constructor'' props"
  shows "convertValueToFirestore opts (JObject (c # chain) props) insideArray
    = Inr (JObject (c # chain) props)"
  using assms
  by (auto simp: customStage_empty isFirestoreType_def objectPrototypeNames_def)

lemma firestore_type_unchanged_witness:
  "convertValueToFirestore defaultConverter
     (JObject [''GeoPoint'', ''Object''] [(''latitude'', True, JNumber 1)]) False
   = Inr (JObject [''GeoPoint'', ''Object''] [(''latitude'', True, JNumber 1)])"
  using firestore_type_unchanged
    [of defaultConverter "''GeoPoint''" "[(''latitude'', True, JNumber 1)]" "[''Object'']" False]
  by (simp add: defaultConverter_simps isFirestoreType_def hasOwn_def)

section \<open>Unrecognised policy modes\<close>

text \<open>
  C6 at the \<^verbatim>\<open>functions\<close> policy. The \<^verbatim>\<open>switch\<close> on \<^verbatim>\<open>this.options.functions\<close> has no
  \<^verbatim>\<open>default\<close> case, so with an unrecognised mode a function value falls through to the
  \<^verbatim>\<open>fallback\<close> policy, whose default \<^verbatim>\<open>"return"\<close> returns the function: nothing is
  thrown.
\<close>

theorem C6_unrecognised_functions_mode_returns:
  "functions_mode bogusFunctions = ''bogus''
   \<and> toFirestore bogusFunctions (JFunction ''test'' ''function test(a) {}'')
     = Inr (JFunction ''test'' ''function test(a) {}'')
   \<and> \<not> throws (toFirestore bogusFunctions (JFunction ''test'' ''function test(a) {}''))"
  by (simp add: bogusFunctions_def toFirestore_def FirestoreDataConverter_def noOptions_def
      orDefault_def customStage_empty objectPrototypeNames_def throws_def)

text \<open>
  The other three policies do throw on a mode they do not recognise: \<^verbatim>\<open>undefinedValues\<close>
  on undefined, \<^verbatim>\<open>multidimensionalArrays\<close> on an array inside an array, and
  \<^verbatim>\<open>fallback\<close> on the one kind of value that reaches it, a function under an
  unrecognised \<^verbatim>\<open>functions\<close> mode.
\<close>

lemma unrecognised_modes_throw:
  assumes "toFirestoreConverters opts = Map.empty"
  shows "undefinedValues opts \<noteq> ''omit'' \<and> undefinedValues opts \<noteq> ''null'' \<longrightarrow>
      convertValueToFirestore opts JUndefined insideArray
        = Inl (Error (''Invalid value for undefinedValues: '' @ undefinedValues opts))"
    and "multidimensionalArrays opts \<noteq> ''convert'' \<and> multidimensionalArrays opts \<noteq> ''omit''
        \<and> multidimensionalArrays opts \<noteq> ''error'' \<longrightarrow>
      convertValueToFirestore opts (JArray items) True
        = Inl (Error (''Invalid value for multidimensionalArrays: ''
                      @ multidimensionalArrays opts))"
    and "functions_mode opts \<noteq> ''convert'' \<and> functions_mode opts \<noteq> ''omit''
        \<and> functions_mode opts \<noteq> ''error'' \<and> fallback opts \<noteq> ''return''
        \<and> fallback opts \<noteq> ''omit'' \<and> fallback opts \<noteq> ''error'' \<longrightarrow>
      convertValueToFirestore opts (JFunction name src) insideArray
        = Inl (Error (''Invalid value for fallback: '' @ fallback opts))"
  using assms by (simp_all add: customStage_empty objectPrototypeNames_def)

section \<open>Undefined fields\<close>

text \<open>
  C5 at the plain object \<^verbatim>\<open>{a: undefined}\<close>. Under \<^verbatim>\<open>undefinedValues = "null"\<close> the
  field is present and equals null. Under the default \<^verbatim>\<open>undefinedValues = "omit"\<close> the
  field is not absent from the result: the loop over the entries stores what the
  conversion of the value returns, so the key \<^verbatim>\<open>a\<close> is there and holds \<^verbatim>\<open>undefined\<close>.
\<close>

theorem C5_omitted_field_keeps_its_key:
  "undefinedValues defaultConverter = ''omit''
   \<and> toFirestore defaultConverter (JObject [''Object''] [(''a'', True, JUndefined)])
     = Inr (JObject [''Object''] [(''a'', True, JUndefined)])
   \<and> hasOwn ''a'' [(''a'', True, JUndefined)]
   \<and> toFirestore (defaultConverter\<lparr>undefinedValues := ''null''\<rparr>)
       (JObject [''Object''] [(''a'', True, JUndefined)])
     = Inr (JObject [''Object''] [(''a'', True, JNull)])"
  by (simp add: toFirestore_def defaultConverter_simps customStage_empty key_simps)

section \<open>An omitted nested array keeps its slot\<close>

lemma returnsE: "returns r \<Longrightarrow> \<exists>y. r = Inr y"
  by (cases r) (simp_all add: returns_def)

lemma mapToFirestore_returns:
  "itemsConvert opts items \<Longrightarrow>
   \<exists>out. mapToFirestore opts items = Inr out \<and> length out = length items"
proof (induction items)
  case Nil
  then show ?case by simp
next
  case (Cons slot items)
  then show ?case
    by (cases slot) (auto dest!: returnsE)
qed

lemma mapToFirestore_nth:
  assumes "mapToFirestore opts items = Inr out" and "i < length items"
    and "items ! i = Some item"
  shows "\<exists>item'. convertValueToFirestore opts item True = Inr item' \<and> out ! i = Some item'"
  using assms
proof (induction items arbitrary: out i)
  case Nil
  then show ?case by simp
next
  case (Cons slot items)
  show ?case
  proof (cases i)
    case 0
    with Cons.prems show ?thesis
      by (auto split: sum.splits)
  next
    case (Suc j)
    with Cons.prems Cons.IH [of _ j] show ?thesis
      by (cases slot) (auto split: sum.splits)
  qed
qed

lemma nested_array_omitted:
  assumes "toFirestoreConverters opts = Map.empty" and "multidimensionalArrays opts = ''omit''"
  shows "convertValueToFirestore opts (JArray inner) True = Inr JUndefined"
  using assms by (simp add: customStage_empty objectPrototypeNames_def)

text \<open>
  C10. With \<^verbatim>\<open>multidimensionalArrays = "omit"\<close> and empty custom converter tables,
  outbound conversion of an array whose element at index \<open>i\<close> is an array, and whose
  elements all convert without throwing, returns an array of the same length with
  \<^verbatim>\<open>undefined\<close> at index \<open>i\<close>.
\<close>

theorem C10_omitted_array_keeps_its_slot:
  assumes "toFirestoreConverters opts = Map.empty"
    and "multidimensionalArrays opts = ''omit''"
    and "i < length items" and "items ! i = Some (JArray inner)"
    and "itemsConvert opts items"
  shows "\<exists>out. toFirestore opts (JArray items) = Inr (JArray out)
    \<and> length out = length items \<and> out ! i = Some JUndefined"
proof -
  from assms(5) obtain out where out: "mapToFirestore opts items = Inr out"
    and len: "length out = length items"
    using mapToFirestore_returns by blast
  from mapToFirestore_nth [OF out assms(3) assms(4)] nested_array_omitted [OF assms(1) assms(2)]
  have "out ! i = Some JUndefined" by simp
  moreover have "toFirestore opts (JArray items) = Inr (JArray out)"
    using assms(1) out by (simp add: toFirestore_def customStage_empty objectPrototypeNames_def)
  ultimately show ?thesis using len by blast
qed

theorem C10_omitted_array_keeps_its_slot_witness:
  "\<exists>out. toFirestore (defaultConverter\<lparr>multidimensionalArrays := ''omit''\<rparr>)
       (JArray [Some (JNumber 3), Some (JString ''poopy''),
                Some (JArray [Some (JNumber 6), Some (JNumber 7), Some (JNumber 8)])])
     = Inr (JArray out)
   \<and> length out = 3 \<and> out ! 2 = Some JUndefined"
proof -
  let ?opts = "defaultConverter\<lparr>multidimensionalArrays := ''omit''\<rparr>"
  let ?items = "[Some (JNumber 3), Some (JString ''poopy''),
              Some (JArray [Some (JNumber 6), Some (JNumber 7), Some (JNumber 8)])]"
  have conv: "itemsConvert ?opts ?items"
    by (simp add: returns_def defaultConverter_simps customStage_empty objectPrototypeNames_def)
  have pre: "toFirestoreConverters ?opts = Map.empty" "multidimensionalArrays ?opts = ''omit''"
    "2 < length ?items"
    "?items ! 2 = Some (JArray [Some (JNumber 6), Some (JNumber 7), Some (JNumber 8)])"
    by (simp_all add: defaultConverter_simps)
  from C10_omitted_array_keeps_its_slot [OF pre conv]
  show ?thesis by (simp add: numeral_3_eq_3)
qed

section \<open>Undefined fields of any plain object\<close>

lemma ownValue_put_same: "ownValue k (put k v ps) = Some v"
  by (induction ps) (auto simp: ownValue_def)

lemma ownValue_put_other: "k \<noteq> k' \<Longrightarrow> ownValue k (put k' v ps) = ownValue k ps"
  by (induction ps) (auto simp: ownValue_def)

lemma ownValue_hasOwn: "ownValue k ps = Some v \<Longrightarrow> hasOwn k ps"
  by (induction ps) (auto simp: ownValue_def hasOwn_def split: if_splits)

lemma fieldsToFirestore_returns:
  "fieldsConvert opts props \<Longrightarrow> \<exists>res. fieldsToFirestore opts props acc = Inr res"
proof (induction props arbitrary: acc)
  case Nil
  then show ?case by simp
next
  case (Cons p props)
  obtain key enumerable val where p: "p = (key, enumerable, val)"
    by (cases p) auto
  with Cons show ?case
    by (auto simp: assign_def dest!: returnsE)
qed

lemma fieldsToFirestore_other:
  "fieldsToFirestore opts props acc = Inr res \<Longrightarrow> k \<notin> fst ` set props \<Longrightarrow>
   ownValue k res = ownValue k acc"
proof (induction props arbitrary: acc)
  case Nil
  then show ?case by simp
next
  case (Cons p props)
  obtain key enumerable val where p: "p = (key, enumerable, val)"
    by (cases p) auto
  with Cons.prems have "key \<noteq> k" and rest: "k \<notin> fst ` set props"
    by auto
  show ?case
  proof (cases enumerable)
    case False
    with Cons.prems p Cons.IH [OF _ rest] show ?thesis by simp
  next
    case True
    with Cons.prems p obtain val' acc' where
      "assign key val' acc = Inr acc'" and "fieldsToFirestore opts props acc' = Inr res"
      by (auto split: sum.splits)
    with Cons.IH [OF _ rest] \<open>key \<noteq> k\<close> show ?thesis
      by (auto simp: assign_def ownValue_put_other split: if_splits)
  qed
qed

lemma fieldsToFirestore_field:
  assumes "fieldsToFirestore opts props acc = Inr res" and "(k, True, x) \<in> set props"
    and "distinct (map fst props)" and "k \<noteq> ''__proto__''"
  shows "\<exists>y. convertValueToFirestore opts x False = Inr y \<and> ownValue k res = Some y"
  using assms
proof (induction props arbitrary: acc)
  case Nil
  then show ?case by simp
next
  case (Cons p props)
  obtain key enumerable val where p: "p = (key, enumerable, val)"
    by (cases p) auto
  show ?case
  proof (cases "p = (k, True, x)")
    case True
    with Cons.prems obtain y acc' where y: "convertValueToFirestore opts x False = Inr y"
      and "assign k y acc = Inr acc'" and rest: "fieldsToFirestore opts props acc' = Inr res"
      by (auto split: sum.splits)
    with Cons.prems(4) have "ownValue k acc' = Some y"
      by (auto simp: assign_def ownValue_put_same)
    moreover from Cons.prems(3) True have "k \<notin> fst ` set props" by auto
    ultimately show ?thesis
      using fieldsToFirestore_other [OF rest] y by simp
  next
    case False
    with Cons.prems p have mem: "(k, True, x) \<in> set props" and dist: "distinct (map fst props)"
      by auto
    from Cons.prems(1) p obtain acc' where "fieldsToFirestore opts props acc' = Inr res"
      by (auto split: sum.splits if_splits)
    from Cons.IH [OF this mem dist Cons.prems(4)] show ?thesis .
  qed
qed

lemma fieldsConvert_key:
  "fieldsConvert opts props \<Longrightarrow> (k, True, x) \<in> set props \<Longrightarrow> k \<noteq> ''__proto__''"
  by (induction props) auto

text \<open>
  The same for every plain object. Let it have the enumerable field \<open>k\<close> with the value
  undefined, no custom converters be registered, and every field convert without
  throwing. Then outbound conversion returns a plain object that has the key \<open>k\<close>: its
  value is \<^verbatim>\<open>undefined\<close> under \<^verbatim>\<open>undefinedValues = "omit"\<close> and \<^verbatim>\<open>null\<close> under
  \<^verbatim>\<open>undefinedValues = "null"\<close>.
\<close>

lemma undefined_field_stays:
  assumes "toFirestoreConverters opts = Map.empty"
    and "(k, True, JUndefined) \<in> set props" and "distinct (map fst props)"
    and "\<not> hasOwn ''constructor'' props"
    and "fieldsConvert opts props"
  shows "\<exists>res. toFirestore opts (JObject [''Object''] props) = Inr (JObject [''Object''] res)
    \<and> hasOwn k res
    \<and> (undefinedValues opts = ''omit'' \<longrightarrow> ownValue k res = Some JUndefined)
    \<and> (undefinedValues opts = ''null'' \<longrightarrow> ownValue k res = Some JNull)"
proof -
  from fieldsToFirestore_returns [OF assms(5)] obtain res
    where res: "fieldsToFirestore opts props [] = Inr res" by blast
  have k: "k \<noteq> ''__proto__''"
    using fieldsConvert_key [OF assms(5) assms(2)] .
  from fieldsToFirestore_field [OF res assms(2) assms(3) k] obtain y
    where y: "convertValueToFirestore opts JUndefined False = Inr y"
      and own: "ownValue k res = Some y" by blast
  have "toFirestore opts (JObject [''Object''] props) = Inr (JObject [''Object''] res)"
    using assms(1) assms(4) res
    by (simp add: toFirestore_def customStage_empty objectPrototypeNames_def
        isFirestoreType_def)
  moreover have "hasOwn k res"
    using own by (rule ownValue_hasOwn)
  moreover have "undefinedValues opts = ''omit'' \<longrightarrow> y = JUndefined"
    and "undefinedValues opts = ''null'' \<longrightarrow> y = JNull"
    using y assms(1) by (auto simp: customStage_empty)
  ultimately show ?thesis using own by blast
qed

lemma undefined_field_stays_example:
  "(\<exists>res. toFirestore defaultConverter
       (JObject [''Object''] [(''a'', True, JNumber 1), (''b'', True, JUndefined)])
       = Inr (JObject [''Object''] res)
     \<and> hasOwn ''b'' res \<and> ownValue ''b'' res = Some JUndefined)
   \<and> (\<exists>res. toFirestore (defaultConverter\<lparr>undefinedValues := ''null''\<rparr>)
       (JObject [''Object''] [(''a'', True, JNumber 1), (''b'', True, JUndefined)])
       = Inr (JObject [''Object''] res)
     \<and> hasOwn ''b'' res \<and> ownValue ''b'' res = Some JNull)"
proof -
  let ?props = "[(''a'', True, JNumber 1), (''b'', True, JUndefined)]"
  let ?null = "defaultConverter\<lparr>undefinedValues := ''null''\<rparr>"
  have conv: "fieldsConvert defaultConverter ?props" "fieldsConvert ?null ?props"
    by (simp_all add: returns_def defaultConverter_simps customStage_empty
        objectPrototypeNames_def)
  have pre: "(''b'', True, JUndefined) \<in> set ?props" "distinct (map fst ?props)"
    "\<not> hasOwn ''constructor'' ?props"
    by (simp_all add: hasOwn_def)
  have tables: "toFirestoreConverters defaultConverter = Map.empty"
    "toFirestoreConverters ?null = Map.empty"
    by (simp_all add: defaultConverter_simps)
  from undefined_field_stays [OF tables(1) pre conv(1)] undefined_field_stays [OF tables(2) pre conv(2)]
  show ?thesis
    by (simp add: defaultConverter_simps)
qed

section \<open>Round trip of plain data\<close>

lemma keysInOrder_before:
  "keysInOrder (ks @ k # ks') \<Longrightarrow> list_all (\<lambda>a. a \<noteq> k \<and> \<not> keyBefore k a) ks"
  by (induction ks) auto

lemma put_last:
  "list_all (\<lambda>a. a \<noteq> k \<and> \<not> keyBefore k a) (map fst ps) \<Longrightarrow> put k v ps = ps @ [(k, True, v)]"
  by (induction ps) auto

lemma plainFields_constructor: "plainFields tagKey props \<Longrightarrow> \<not> hasOwn ''constructor'' props"
  by (induction props) (auto simp: hasOwn_def rev_image_eqI)

lemma plain_outbound:
  shows "plainData tagKey insideArray v \<Longrightarrow>
      convertValueToFirestore defaultConverter v insideArray = Inr v"
    and "plainItems tagKey items \<Longrightarrow> mapToFirestore defaultConverter items = Inr items"
    and "plainFields tagKey props \<Longrightarrow>
      (\<forall>acc. keysInOrder (map fst acc @ map fst props) \<longrightarrow>
         fieldsToFirestore defaultConverter props acc = Inr (acc @ props))"
proof (induction tagKey insideArray v and tagKey items and tagKey props
    rule: plainData_plainItems_plainFields.induct)
  case (6 tagKey insideArray chain props)
  then show ?case
    by (auto simp: defaultConverter_simps customStage_empty objectPrototypeNames_def
        isFirestoreType_def plainFields_constructor)
next
  case (16 tagKey key enumerable val props)
  show ?case
  proof (intro allI impI)
    fix acc :: "ownprop list"
    assume ord: "keysInOrder (map fst acc @ map fst ((key, enumerable, val) # props))"
    from "16.prems" have en: enumerable and key: "key \<noteq> ''__proto__''"
      and val: "plainData tagKey False val" and rest: "plainFields tagKey props"
      by auto
    from ord have "list_all (\<lambda>a. a \<noteq> key \<and> \<not> keyBefore key a) (map fst acc)"
      using keysInOrder_before [of "map fst acc" key "map fst props"] by simp
    then have put: "put key val acc = acc @ [(key, True, val)]"
      by (rule put_last)
    from ord have "keysInOrder (map fst (acc @ [(key, True, val)]) @ map fst props)"
      by simp
    with "16.IH"(2) [OF rest] have
      "fieldsToFirestore defaultConverter props (acc @ [(key, True, val)])
        = Inr ((acc @ [(key, True, val)]) @ props)"
      by blast
    with "16.IH"(1) [OF val] en key put show
      "fieldsToFirestore defaultConverter ((key, enumerable, val) # props) acc
        = Inr (acc @ (key, enumerable, val) # props)"
      by (simp add: assign_def)
  qed
qed (auto simp: defaultConverter_simps customStage_empty objectPrototypeNames_def)

lemma plain_inbound:
  shows "plainData tagKey insideArray v \<Longrightarrow> tagKey = ''_constructor'' \<Longrightarrow>
      convertValueFromFirestore h defaultConverter v = Inr v"
    and "plainItems tagKey items \<Longrightarrow> tagKey = ''_constructor'' \<Longrightarrow>
      mapFromFirestore h defaultConverter items = Inr items"
    and "plainFields tagKey props \<Longrightarrow> tagKey = ''_constructor'' \<Longrightarrow>
      (\<forall>acc. keysInOrder (map fst acc @ map fst props) \<longrightarrow>
         fieldsFromFirestore h defaultConverter props acc = Inr (acc @ props))"
proof (induction tagKey insideArray v and tagKey items and tagKey props
    rule: plainData_plainItems_plainFields.induct)
  case (6 tagKey insideArray chain props)
  then show ?case
    by (auto simp: defaultConverter_simps customStage_empty objectPrototypeNames_def
        plainFields_constructor)
next
  case (16 tagKey key enumerable val props)
  show ?case
  proof (intro allI impI)
    fix acc :: "ownprop list"
    assume ord: "keysInOrder (map fst acc @ map fst ((key, enumerable, val) # props))"
    from "16.prems" have en: enumerable and key: "key \<noteq> ''__proto__''"
      and val: "plainData tagKey False val" and rest: "plainFields tagKey props"
      and tag: "tagKey = ''_constructor''"
      by auto
    from ord have "list_all (\<lambda>a. a \<noteq> key \<and> \<not> keyBefore key a) (map fst acc)"
      using keysInOrder_before [of "map fst acc" key "map fst props"] by simp
    then have put: "put key val acc = acc @ [(key, True, val)]"
      by (rule put_last)
    from ord have "keysInOrder (map fst (acc @ [(key, True, val)]) @ map fst props)"
      by simp
    with "16.IH"(2) [OF rest tag] have
      "fieldsFromFirestore h defaultConverter props (acc @ [(key, True, val)])
        = Inr ((acc @ [(key, True, val)]) @ props)"
      by blast
    with "16.IH"(1) [OF val tag] en key put show
      "fieldsFromFirestore h defaultConverter ((key, enumerable, val) # props) acc
        = Inr (acc @ (key, enumerable, val) # props)"
      by (simp add: assign_def)
  qed
qed (auto simp: defaultConverter_simps customStage_empty objectPrototypeNames_def)

text \<open>
  C1, as amended. Let \<open>o\<close> be a plain object of enumerable fields, none called
  \<^verbatim>\<open>constructor\<close> or \<^verbatim>\<open>__proto__\<close>, whose values are recursively numbers, booleans,
  strings, bigints, single-level arrays and such plain objects, and let no object in it
  have the string \<^verbatim>\<open>"Array"\<close> under the tag key \<^verbatim>\<open>_constructor\<close>. With the default policy
  and empty custom converter tables, outbound conversion of \<open>o\<close> returns, and inbound
  conversion of what it returns gives back \<open>o\<close>.
\<close>

theorem C1_plain_data_round_trip:
  assumes "plainData ''_constructor'' False (JObject [''Object''] props)"
  shows "\<exists>stored. toFirestore defaultConverter (JObject [''Object''] props) = Inr stored
    \<and> fromFirestore h defaultConverter stored = Inr (JObject [''Object''] props)"
  using plain_outbound(1) [OF assms] plain_inbound(1) [OF assms]
  by (simp add: toFirestore_def fromFirestore_def)

theorem C1_plain_data_round_trip_witness:
  "\<exists>stored. toFirestore defaultConverter
       (JObject [''Object'']
         [(''a'', True, JNumber 1), (''b'', True, JString ''poopy''),
          (''c'', True, JArray [Some (JNumber 3), Some (JObject [''Object''] [(''d'', True, JBoolean True)])])])
     = Inr stored
   \<and> fromFirestore bareHost defaultConverter stored
     = Inr (JObject [''Object'']
         [(''a'', True, JNumber 1), (''b'', True, JString ''poopy''),
          (''c'', True, JArray [Some (JNumber 3), Some (JObject [''Object''] [(''d'', True, JBoolean True)])])])"
proof -
  have "plainData ''_constructor'' False
     (JObject [''Object'']
         [(''a'', True, JNumber 1), (''b'', True, JString ''poopy''),
          (''c'', True, JArray [Some (JNumber 3), Some (JObject [''Object''] [(''d'', True, JBoolean True)])])])"
    by (simp add: key_simps)
  from C1_plain_data_round_trip [OF this] show ?thesis .
qed

text \<open>
  The claim C1 as stated fails at the plain object \<^verbatim>\<open>{_constructor: "Array"}\<close>, whose only
  field is a string: outbound conversion returns it unchanged, and inbound conversion
  reads it as a converted array and returns the empty array.
\<close>

theorem C1_tagged_object_comes_back_as_array:
  "toFirestore defaultConverter taggedObject = Inr taggedObject
   \<and> fromFirestore bareHost defaultConverter taggedObject = Inr (JArray [])
   \<and> JArray [] \<noteq> taggedObject"
  by (simp add: taggedObject_def toFirestore_def fromFirestore_def defaultConverter_simps
      customStage_empty key_simps)

section \<open>Nested arrays under the error policy\<close>

lemma errorOnNested_simps:
  "toFirestoreConverters errorOnNested = Map.empty"
  "multidimensionalArrays errorOnNested = ''error''"
  by (simp_all add: errorOnNested_def FirestoreDataConverter_def noOptions_def orDefault_def)

lemma customStage_empty_None: "customStage Map.empty v \<noteq> Inr (Some r)"
  by (simp add: customStage_empty split: sum.splits option.splits)

lemma nested_array_fails:
  assumes "toFirestoreConverters opts = Map.empty" and "multidimensionalArrays opts = ''error''"
  shows "reachesNested insideArray v \<Longrightarrow> isl (convertValueToFirestore opts v insideArray)"
    and "reachesNested insideArray v \<Longrightarrow> isl (defaultToFirestore opts v insideArray)"
    and "itemsReachNested items \<Longrightarrow> isl (mapToFirestore opts items)"
    and "fieldsReachNested props \<Longrightarrow> isl (fieldsToFirestore opts props acc)"
    and "convertValues \<Longrightarrow> (case v of JObject chain ps \<Rightarrow> propsReachNested ps | _ \<Rightarrow> False) \<Longrightarrow>
      isl (convertToTypedPlainObject opts v convertValues)"
    and "convertValues \<Longrightarrow> propsReachNested props \<Longrightarrow> isl (typedProps opts convertValues props)"
    and "returns (typedItems opts convertValues i items)
      \<or> isl (typedItems opts convertValues i items)"
  using assms
proof (induction opts v insideArray and opts v insideArray and opts items and opts props acc
    and opts v convertValues and opts convertValues props and opts convertValues i items
    rule: convertValueToFirestore_defaultToFirestore_mapToFirestore_fieldsToFirestore_convertToTypedPlainObject_typedProps_typedItems.induct)
  case (1 opts v insideArray)
  then show ?case
    by (auto simp: customStage_empty_None split: sum.splits option.splits)
next
  case (11 opts items insideArray)
  then show ?case
    by (cases insideArray) (auto split: sum.splits)
next
  case (12 opts chain props insideArray)
  then show ?case
    by (auto split: sum.splits list.splits if_splits)
next
  case (15 opts item items)
  then show ?case
    by (auto split: sum.splits)
next
  case (17 opts key enumerable val props result)
  then show ?case
    by (auto split: sum.splits)
next
  case (18 opts v convertValues)
  then show ?case
    by (cases v) (auto split: sum.splits)
next
  case (20 opts convertValues key enumerable val props)
  then show ?case
    by (auto split: sum.splits)
qed (auto simp: returns_def split: sum.splits)

lemma builtin_names:
  "''Number'' \<notin> set objectPrototypeNames" "''Boolean'' \<notin> set objectPrototypeNames"
  "''String'' \<notin> set objectPrototypeNames" "''BigInt'' \<notin> set objectPrototypeNames"
  "''Symbol'' \<notin> set objectPrototypeNames" "''Function'' \<notin> set objectPrototypeNames"
  "''Date'' \<notin> set objectPrototypeNames" "''Array'' \<notin> set objectPrototypeNames"
  "''Object'' \<notin> set objectPrototypeNames"
  by (simp_all add: objectPrototypeNames_def)

lemma modelledProps_constructor: "modelledProps props \<Longrightarrow> \<not> hasOwn ''constructor'' props"
  by (induction props) (auto simp: hasOwn_def rev_image_eqI)

lemma modelled_conversion:
  assumes "toFirestoreConverters opts = Map.empty"
  shows "modelled v \<Longrightarrow> convertValueToFirestore opts v insideArray \<noteq> Inl Unmodelled"
    and "modelled v \<Longrightarrow> defaultToFirestore opts v insideArray \<noteq> Inl Unmodelled"
    and "modelledItems items \<Longrightarrow> mapToFirestore opts items \<noteq> Inl Unmodelled"
    and "modelledProps props \<Longrightarrow> fieldsToFirestore opts props acc \<noteq> Inl Unmodelled"
    and "(case v of JArray xs \<Rightarrow> modelledItems xs | JObject chain ps \<Rightarrow> modelledProps ps
          | _ \<Rightarrow> False) \<Longrightarrow>
      convertToTypedPlainObject opts v convertValues \<noteq> Inl Unmodelled"
    and "modelledProps props \<Longrightarrow> typedProps opts convertValues props \<noteq> Inl Unmodelled"
    and "modelledItems items \<Longrightarrow> typedItems opts convertValues i items \<noteq> Inl Unmodelled"
  using assms
proof (induction opts v insideArray and opts v insideArray and opts items and opts props acc
    and opts v convertValues and opts convertValues props and opts convertValues i items
    rule: convertValueToFirestore_defaultToFirestore_mapToFirestore_fieldsToFirestore_convertToTypedPlainObject_typedProps_typedItems.induct)
  case (1 opts v insideArray)
  then show ?case
    by (cases v)
      (auto simp: customStage_empty modelledProps_constructor builtin_names
        split: sum.splits option.splits list.splits)
next
  case (11 opts items insideArray)
  then show ?case
    by (cases insideArray) (auto split: sum.splits)
next
  case (12 opts chain props insideArray)
  then show ?case
    by (auto split: sum.splits list.splits if_splits)
next
  case (17 opts key enumerable val props result)
  then show ?case
    by (auto simp: assign_def split: sum.splits)
next
  case (18 opts v convertValues)
  then show ?case
    by (cases v)
      (auto simp: customStage_empty modelledProps_constructor builtin_names
        split: sum.splits list.splits)
qed (auto split: sum.splits)

lemma reaches_contains:
  shows "reachesNested insideArray v \<Longrightarrow> containsNested insideArray v"
    and "itemsReachNested items \<Longrightarrow> itemsContainNested items"
    and "fieldsReachNested props \<Longrightarrow> propsContainNested props"
    and "propsReachNested props \<Longrightarrow> propsContainNested props"
  by (induction insideArray v and items and props and props
      rule: reachesNested_itemsReachNested_fieldsReachNested_propsReachNested.induct)
    (auto split: list.splits if_splits)

text \<open>
  C8, as amended. With \<^verbatim>\<open>multidimensionalArrays = "error"\<close> and an empty outbound
  converter table, outbound conversion throws, and so returns no result, on every value in
  which the converter's walk reaches an array directly inside an array: through the
  elements of arrays, the enumerable fields of plain objects and the own properties of
  class instances, not through an object that is returned as it is. The value is one of
  the model's: no object has an own property called \<^verbatim>\<open>constructor\<close> or \<^verbatim>\<open>__proto__\<close>,
  and no class is named like a member of \<^verbatim>\<open>Object.prototype\<close>.
\<close>

theorem C8_nested_array_throws:
  assumes "toFirestoreConverters opts = Map.empty"
    and "multidimensionalArrays opts = ''error''"
    and "reachesNested False v" and "modelled v"
  shows "throws (toFirestore opts v) \<and> \<not> returns (toFirestore opts v)"
proof -
  from nested_array_fails(1) [OF assms(1) assms(2) assms(3)]
  obtain e where e: "convertValueToFirestore opts v False = Inl e"
    by (cases "convertValueToFirestore opts v False") auto
  moreover from modelled_conversion(1) [OF assms(1) assms(4)] e have "e \<noteq> Unmodelled"
    by auto
  ultimately show ?thesis
    by (simp add: throws_def returns_def toFirestore_def)
qed

theorem C8_nested_array_throws_witness:
  "throws (toFirestore errorOnNested
     (JObject [''Object'']
       [(''a'', True, JNumber 1),
        (''c'', True, JArray [Some (JNumber 3), Some (JString ''poopy''),
                              Some (JArray [Some (JNumber 6), Some (JNumber 7)])])]))
   \<and> \<not> returns (toFirestore errorOnNested
     (JObject [''Object'']
       [(''a'', True, JNumber 1),
        (''c'', True, JArray [Some (JNumber 3), Some (JString ''poopy''),
                              Some (JArray [Some (JNumber 6), Some (JNumber 7)])])]))"
proof -
  let ?v = "JObject [''Object'']
       [(''a'', True, JNumber 1),
        (''c'', True, JArray [Some (JNumber 3), Some (JString ''poopy''),
                              Some (JArray [Some (JNumber 6), Some (JNumber 7)])])]"
  have "reachesNested False ?v" and "modelled ?v"
    by (simp_all add: isFirestoreType_def objectPrototypeNames_def)
  from C8_nested_array_throws [OF errorOnNested_simps this] show ?thesis .
qed

text \<open>
  The claim C8 as stated fails at an object that the converter does not enter: an instance
  of a class called \<^verbatim>\<open>GeoPoint\<close> that holds \<^verbatim>\<open>[[1, 2]]\<close> in a field contains an array
  directly inside an array, and is returned unchanged.
\<close>

theorem C8_nested_array_inside_store_type:
  "multidimensionalArrays errorOnNested = ''error''
   \<and> containsNested False geoPointWithNested
   \<and> toFirestore errorOnNested geoPointWithNested = Inr geoPointWithNested
   \<and> \<not> throws (toFirestore errorOnNested geoPointWithNested)"
  by (simp add: geoPointWithNested_def toFirestore_def errorOnNested_simps customStage_empty
      key_simps throws_def)

end
